theory Spec2Isabelle
  imports Complex_Main "HOL-Library.Multiset"
begin

section \<open>JavaScript values, errors and outcomes\<close>

text \<open>
  The workers are JavaScript: a value read from a decoded JSON document can be of any
  JSON kind, and a property that is absent reads as \<open>undefined\<close>. A Number is an IEEE
  double in the engine and a real number here; a string is a list of 8-bit characters.
  An object is the list of its own enumerable properties in the order they were created.
\<close>

datatype jsval =
    Undefined
  | Null
  | Boolean bool
  | Number real
  | String string
  | Array "jsval list"
  | Object "(string \<times> jsval) list"

text \<open>
  What axios hands back for an HTTP reply: \<open>data\<close> is the body, already decoded when it
  is JSON text and the text itself otherwise; header names are in lower case.
\<close>

record response =
  status :: nat
  statusText :: string
  headers :: "(string \<times> string) list"
  data :: jsval

text \<open>
  The errors the workers throw or let through. An \<open>AxiosError\<close> carries the response when
  the service answered.
\<close>

datatype error =
    TypeError
  | SyntaxError
  | Error string
  | SourceCorruptError string
  | AxiosError "response option"
  | SystemError string

text \<open>
  A computation returns a value or throws. \<open>Outside\<close> marks the inputs whose behaviour
  this development does not describe (it is never the result of a throw).
\<close>

datatype 'a outcome = Returns 'a | Throws error | Outside

definition bind :: "'a outcome \<Rightarrow> ('a \<Rightarrow> 'b outcome) \<Rightarrow> 'b outcome" where
  "bind m f = (case m of Returns x \<Rightarrow> f x | Throws e \<Rightarrow> Throws e | Outside \<Rightarrow> Outside)"

section \<open>Strings of the platform\<close>

definition CRLF :: string where
  "CRLF = [CHR 0x0D, CHR 0x0A]"

text \<open>\<open>s.indexOf(sub)\<close>: the first position where \<open>sub\<close> occurs, or -1.\<close>

fun indexOf_from :: "nat \<Rightarrow> string \<Rightarrow> string \<Rightarrow> int" where
  "indexOf_from i sub [] = (if sub = [] then int i else - 1)"
| "indexOf_from i sub (c # cs) =
     (if take (length sub) (c # cs) = sub then int i else indexOf_from (Suc i) sub cs)"

definition indexOf :: "string \<Rightarrow> string \<Rightarrow> int" where
  "indexOf s sub = indexOf_from 0 sub s"

text \<open>
  \<open>s.split(sep)\<close> with a string separator: the pieces between the occurrences of \<open>sep\<close>,
  found from left to right without overlap. \<open>skip\<close> counts the characters of a separator
  just matched that are still to be passed over; \<open>cur\<close> is the current piece, reversed.
\<close>

fun split_from :: "string \<Rightarrow> nat \<Rightarrow> string \<Rightarrow> string \<Rightarrow> string list" where
  "split_from sep skip cur [] = [rev cur]"
| "split_from sep skip cur (c # cs) =
     (if 0 < skip then split_from sep (skip - 1) cur cs
      else if take (length sep) (c # cs) = sep
        then rev cur # split_from sep (length sep - 1) [] cs
      else split_from sep 0 (c # cur) cs)"

definition split :: "string \<Rightarrow> string \<Rightarrow> string list" where
  "split s sep = (if sep = [] then map (\<lambda>c. [c]) s else split_from sep 0 [] s)"

text \<open>\<open>s.trim()\<close>: white space and line terminators removed at both ends.\<close>

definition is_space :: "char \<Rightarrow> bool" where
  "is_space c = ((of_char c :: nat) \<in> {9, 10, 11, 12, 13, 32, 160})"

definition trim :: "string \<Rightarrow> string" where
  "trim s = rev (dropWhile is_space (rev (dropWhile is_space s)))"

text \<open>
  \<open>s.replace(pattern, replacement)\<close> with a string pattern replaces the first occurrence
  only, and expands \<open>$$\<close>, \<open>$&\<close>, \<open>$`\<close> and \<open>$'\<close> in the replacement.
\<close>

fun GetSubstitution :: "string \<Rightarrow> string \<Rightarrow> string \<Rightarrow> string \<Rightarrow> string" where
  "GetSubstitution matched before after [] = []"
| "GetSubstitution matched before after [c] = [c]"
| "GetSubstitution matched before after (c # d # r) =
     (if c = CHR ''$'' \<and> d = CHR ''$'' then CHR ''$'' # GetSubstitution matched before after r
      else if c = CHR ''$'' \<and> d = CHR ''&'' then matched @ GetSubstitution matched before after r
      else if c = CHR ''$'' \<and> d = CHR 0x60 then before @ GetSubstitution matched before after r
      else if c = CHR ''$'' \<and> d = CHR 0x27 then after @ GetSubstitution matched before after r
      else c # GetSubstitution matched before after (d # r))"

definition replace :: "string \<Rightarrow> string \<Rightarrow> string \<Rightarrow> string" where
  "replace s pattern replacement =
     (let p = indexOf s pattern in
      if p < 0 then s
      else let before = take (nat p) s; after = drop (nat p + length pattern) s
           in before @ GetSubstitution pattern before after replacement @ after)"

text \<open>An integer in a template literal is written in decimal.\<close>

fun decimal :: "nat \<Rightarrow> string" where
  "decimal n =
     (if n < 10 then [char_of (48 + n)]
      else decimal (n div 10) @ [char_of (48 + n mod 10)])"

definition integer_string :: "int \<Rightarrow> string" where
  "integer_string i = (if i < 0 then ''-'' @ decimal (nat (- i)) else decimal (nat i))"

section \<open>Property access and enumeration\<close>

definition is_digit :: "char \<Rightarrow> bool" where
  "is_digit c = (48 \<le> (of_char c :: nat) \<and> (of_char c :: nat) \<le> 57)"

definition digits_value :: "string \<Rightarrow> int" where
  "digits_value ds = foldl (\<lambda>a c. 10 * a + (of_char c - 48)) 0 ds"

text \<open>
  A property key is an array index when it is the decimal text, without leading zeros,
  of an integer below \<open>2^32 - 1\<close>.
\<close>

definition array_index :: "string \<Rightarrow> nat option" where
  "array_index k =
     (if k \<noteq> [] \<and> list_all is_digit k \<and> (k = ''0'' \<or> hd k \<noteq> CHR ''0'')
         \<and> digits_value k < 4294967295
      then Some (nat (digits_value k)) else None)"

text \<open>
  \<open>v[k]\<close> and \<open>v.k\<close>: reading a property of \<open>undefined\<close> or \<open>null\<close> throws a TypeError;
  a property that the value does not have reads as \<open>undefined\<close>. Only own properties are
  described (the keys the workers read are not inherited ones).
\<close>

fun get :: "jsval \<Rightarrow> string \<Rightarrow> jsval outcome" where
  "get Undefined k = Throws TypeError"
| "get Null k = Throws TypeError"
| "get (Object ps) k = Returns (case map_of ps k of Some v \<Rightarrow> v | None \<Rightarrow> Undefined)"
| "get (Array xs) k =
     Returns (case array_index k of
                Some i \<Rightarrow> if i < length xs then xs ! i else Undefined
              | None \<Rightarrow> Undefined)"
| "get (String s) k =
     Returns (case array_index k of
                Some i \<Rightarrow> if i < length s then String [s ! i] else Undefined
              | None \<Rightarrow> Undefined)"
| "get (Boolean b) k = Returns Undefined"
| "get (Number n) k = Returns Undefined"

text \<open>
  The keys a \<open>for (const k in v)\<close> loop visits: array-index keys in ascending order, then
  the other keys in creation order; nothing for \<open>undefined\<close>, \<open>null\<close>, numbers and booleans.
\<close>

fun for_in :: "jsval \<Rightarrow> string list" where
  "for_in (Object ps) =
     sort_key digits_value (filter (\<lambda>k. array_index k \<noteq> None) (map fst ps))
     @ filter (\<lambda>k. array_index k = None) (map fst ps)"
| "for_in (Array xs) = map decimal [0..<length xs]"
| "for_in (String s) = map decimal [0..<length s]"
| "for_in v = []"

text \<open>Creating a property: a key that exists keeps its place and takes the new value.\<close>

fun put :: "(string \<times> jsval) list \<Rightarrow> string \<Rightarrow> jsval \<Rightarrow> (string \<times> jsval) list" where
  "put [] k v = [(k, v)]"
| "put (p # ps) k v = (if fst p = k then (k, v) # ps else p # put ps k v)"

section \<open>JSON.parse\<close>

text \<open>
  The JSON grammar over 8-bit text. A parser returns the value read and the rest of the
  text, or finds the text malformed. \<open>Unrepresentable\<close>: the text has a \<open>\u\<close> escape for
  a character above U+00FF, which the strings here do not have.
\<close>

datatype 'a parsed = Parsed 'a string | Malformed | Unrepresentable

definition is_ws :: "char \<Rightarrow> bool" where
  "is_ws c = ((of_char c :: nat) \<in> {9, 10, 13, 32})"

definition hex_value :: "char \<Rightarrow> nat option" where
  "hex_value c =
     (let k = (of_char c :: nat) in
      if 48 \<le> k \<and> k \<le> 57 then Some (k - 48)
      else if 97 \<le> k \<and> k \<le> 102 then Some (k - 87)
      else if 65 \<le> k \<and> k \<le> 70 then Some (k - 55)
      else None)"

definition hex4 :: "char \<Rightarrow> char \<Rightarrow> char \<Rightarrow> char \<Rightarrow> nat option" where
  "hex4 a b c d =
     (case (hex_value a, hex_value b, hex_value c, hex_value d) of
        (Some w, Some x, Some y, Some z) \<Rightarrow> Some (4096 * w + 256 * x + 16 * y + z)
      | _ \<Rightarrow> None)"

fun parse_chars :: "string \<Rightarrow> string \<Rightarrow> string parsed" where
  "parse_chars acc [] = Malformed"
| "parse_chars acc (c # cs) =
     (if c = CHR 0x22 then Parsed (rev acc) cs
      else if c = CHR 0x5C then
        (case cs of
           [] \<Rightarrow> Malformed
         | e # r \<Rightarrow>
             if e = CHR 0x22 \<or> e = CHR 0x5C \<or> e = CHR ''/'' then parse_chars (e # acc) r
             else if e = CHR ''b'' then parse_chars (CHR 0x08 # acc) r
             else if e = CHR ''f'' then parse_chars (CHR 0x0C # acc) r
             else if e = CHR ''n'' then parse_chars (CHR 0x0A # acc) r
             else if e = CHR ''r'' then parse_chars (CHR 0x0D # acc) r
             else if e = CHR ''t'' then parse_chars (CHR 0x09 # acc) r
             else if e = CHR ''u'' then
               (case r of
                  h1 # h2 # h3 # h4 # r' \<Rightarrow>
                    (case hex4 h1 h2 h3 h4 of
                       None \<Rightarrow> Malformed
                     | Some n \<Rightarrow> if n < 256 then parse_chars (char_of n # acc) r'
                                 else Unrepresentable)
                | _ \<Rightarrow> Malformed)
             else Malformed)
      else if (of_char c :: nat) < 32 then Malformed
      else parse_chars (c # acc) cs)"

text \<open>
  A number: an optional minus, an integer part without leading zeros, an optional
  fraction, an optional exponent.
\<close>

definition parse_exponent :: "string \<Rightarrow> (int \<times> string) option" where
  "parse_exponent s =
     (if s \<noteq> [] \<and> (hd s = CHR ''e'' \<or> hd s = CHR ''E'') then
        (let s1 = tl s;
             neg = (s1 \<noteq> [] \<and> hd s1 = CHR ''-'');
             s2 = (if s1 \<noteq> [] \<and> (hd s1 = CHR ''-'' \<or> hd s1 = CHR ''+'') then tl s1 else s1);
             ds = takeWhile is_digit s2
         in if ds = [] then None
            else Some (if neg then - digits_value ds else digits_value ds, dropWhile is_digit s2))
      else Some (0, s))"

definition parse_number :: "string \<Rightarrow> jsval parsed" where
  "parse_number s =
     (let neg = (s \<noteq> [] \<and> hd s = CHR ''-'');
          s1 = (if neg then tl s else s);
          ip = takeWhile is_digit s1;
          s2 = dropWhile is_digit s1;
          dot = (s2 \<noteq> [] \<and> hd s2 = CHR ''.'');
          fp = (if dot then takeWhile is_digit (tl s2) else []);
          s3 = (if dot then dropWhile is_digit (tl s2) else s2)
      in if ip = [] \<or> (1 < length ip \<and> hd ip = CHR ''0'') \<or> (dot \<and> fp = []) then Malformed
         else case parse_exponent s3 of
                Some (e, rest) \<Rightarrow>
                  (let m = real_of_int (digits_value (ip @ fp)) * (10 powi (e - int (length fp)))
                   in Parsed (Number (if neg then - m else m)) rest)
              | None \<Rightarrow> Malformed)"

text \<open>
  Values, the elements of an array after \<open>[\<close> or a comma, and the members of an object
  likewise: what is being read is the second argument. The first argument bounds the
  number of nested calls; \<open>JSON_parse\<close> starts with more than the text can need, and a
  parser that runs out says nothing about the text.
\<close>

datatype reading = Value | Elements "jsval list" | Members "(string \<times> jsval) list"

primrec parse_json :: "nat \<Rightarrow> reading \<Rightarrow> string \<Rightarrow> jsval parsed" where
  "parse_json 0 what s = Unrepresentable"
| "parse_json (Suc n) what s =
     (case what of
        Value \<Rightarrow>
          (case dropWhile is_ws s of
             [] \<Rightarrow> Malformed
           | c # cs \<Rightarrow>
               if c = CHR ''{'' then
                 (case dropWhile is_ws cs of
                    [] \<Rightarrow> Malformed
                  | d # ds \<Rightarrow>
                      if d = CHR ''}'' then Parsed (Object []) ds else parse_json n (Members []) cs)
               else if c = CHR ''['' then
                 (case dropWhile is_ws cs of
                    [] \<Rightarrow> Malformed
                  | d # ds \<Rightarrow>
                      if d = CHR '']'' then Parsed (Array []) ds else parse_json n (Elements []) cs)
               else if c = CHR 0x22 then
                 (case parse_chars [] cs of
                    Parsed str r \<Rightarrow> Parsed (String str) r
                  | Malformed \<Rightarrow> Malformed
                  | Unrepresentable \<Rightarrow> Unrepresentable)
               else if take 4 (c # cs) = ''true'' then Parsed (Boolean True) (drop 3 cs)
               else if take 5 (c # cs) = ''false'' then Parsed (Boolean False) (drop 4 cs)
               else if take 4 (c # cs) = ''null'' then Parsed Null (drop 3 cs)
               else parse_number (c # cs))
      | Elements acc \<Rightarrow>
          (case parse_json n Value s of
             Parsed v r \<Rightarrow>
               (case dropWhile is_ws r of
                  [] \<Rightarrow> Malformed
                | c # cs \<Rightarrow>
                    if c = CHR '','' then parse_json n (Elements (acc @ [v])) cs
                    else if c = CHR '']'' then Parsed (Array (acc @ [v])) cs
                    else Malformed)
           | Malformed \<Rightarrow> Malformed
           | Unrepresentable \<Rightarrow> Unrepresentable)
      | Members acc \<Rightarrow>
          (case dropWhile is_ws s of
             [] \<Rightarrow> Malformed
           | c # cs \<Rightarrow>
               if c = CHR 0x22 then
                 (case parse_chars [] cs of
                    Parsed key r \<Rightarrow>
                      (case dropWhile is_ws r of
                         [] \<Rightarrow> Malformed
                       | d # ds \<Rightarrow>
                           if d = CHR '':'' then
                             (case parse_json n Value ds of
                                Parsed v r2 \<Rightarrow>
                                  (case dropWhile is_ws r2 of
                                     [] \<Rightarrow> Malformed
                                   | e # es \<Rightarrow>
                                       if e = CHR '','' then parse_json n (Members (put acc key v)) es
                                       else if e = CHR ''}'' then Parsed (Object (put acc key v)) es
                                       else Malformed)
                              | Malformed \<Rightarrow> Malformed
                              | Unrepresentable \<Rightarrow> Unrepresentable)
                           else Malformed)
                  | Malformed \<Rightarrow> Malformed
                  | Unrepresentable \<Rightarrow> Unrepresentable)
               else Malformed))"

definition JSON_parse :: "string \<Rightarrow> jsval outcome" where
  "JSON_parse text =
     (case parse_json (2 * length text + 2) Value text of
        Parsed v r \<Rightarrow> if dropWhile is_ws r = [] then Returns v else Throws SyntaxError
      | Malformed \<Rightarrow> Throws SyntaxError
      | Unrepresentable \<Rightarrow> Outside)"

section \<open>Requests, the service and axios\<close>

datatype form_value = ReadStream string | JSON_stringify jsval

datatype body = Json jsval | FormData "(string \<times> form_value) list"

text \<open>
  A request configuration as the workers build it. A header whose value comes from an
  instruction that is not set is \<open>undefined\<close> (\<open>None\<close>).
\<close>

record request =
  http_method :: string
  url :: string
  request_headers :: "(string \<times> string option) list"
  request_data :: body

datatype reply = NoResponse | Reply response

text \<open>
  \<open>axios(config)\<close> with its default \<open>validateStatus\<close>: the promise resolves with the
  response when the status is from 200 to 299, and rejects otherwise, with an error that
  has the response when there was one.
\<close>

definition axios :: "(request \<Rightarrow> reply) \<Rightarrow> request \<Rightarrow> response option + response" where
  "axios service config =
     (case service config of
        NoResponse \<Rightarrow> Inl None
      | Reply r \<Rightarrow> if 200 \<le> status r \<and> status r < 300 then Inr r else Inl (Some r))"

text \<open>
  \<open>multipart.getBoundary(header)\<close> of the parse-multipart package: the text after \<open>=\<close>
  in the first \<open>;\<close>-separated item of the header that mentions \<open>boundary\<close>, or the empty
  string when there is none. The header is \<open>undefined\<close> when the response has no
  content type, and splitting \<open>undefined\<close> throws.
\<close>

definition getBoundary :: "string option \<Rightarrow> string outcome" where
  "getBoundary header =
     (case header of
        None \<Rightarrow> Throws TypeError
      | Some h \<Rightarrow>
          Returns
            (case find (\<lambda>item. 0 \<le> indexOf (trim item) ''boundary'') (split h '';'') of
               None \<Rightarrow> []
             | Some item \<Rightarrow>
                 (let k = split (trim item) ''=''
                  in if 1 < length k then trim (k ! 1) else ''undefined'')))"

text \<open>
  The world of one invocation: what \<open>fs.stat\<close> says of a path (the size, or the error it
  rejects with), the remote service, whether the process runs in test mode, and the
  boundary the form encoder picks. The effects of an invocation are the HTTP calls it
  issued and the documents it wrote, in order.
\<close>

record env =
  fs_stat :: "string \<Rightarrow> error + nat"
  service :: "request \<Rightarrow> reply"
  WORKER_TEST_MODE :: bool
  form_boundary :: string

record source =
  path :: string
  source_url :: string

record rendition =
  instructions :: "string \<Rightarrow> string option"
  rendition_path :: string

text \<open>\<open>a || b\<close> on an instruction: an instruction that is not set or empty is falsy.\<close>

definition or_default :: "string option \<Rightarrow> string \<Rightarrow> string" where
  "or_default v d = (case v of None \<Rightarrow> d | Some s \<Rightarrow> if s = [] then d else s)"

text \<open>A value that may be \<open>undefined\<close>, inside a template literal.\<close>

definition template :: "string option \<Rightarrow> string" where
  "template v = (case v of None \<Rightarrow> ''undefined'' | Some s \<Rightarrow> s)"

section \<open>The colour extraction worker\<close>

definition DEFAULT_ANALYZER_ID :: string where
  "DEFAULT_ANALYZER_ID = ''Feature:cintel-image-classifier:Service-60887e328ded447d86e01122a4f19c58''"

definition DEFAULT_CCAI_ENDPOINT :: string where
  "DEFAULT_CCAI_ENDPOINT = ''https://sensei-stage-va6.adobe.io/services/v2/predict''"

text \<open>
  The \<open>Color\<close> objects. \<open>parseColors\<close> copies the four numeric fields from the decoded
  document as they are, so they are JavaScript values there (\<open>jsval color\<close>); sorting
  and formatting compute with them as Numbers (\<open>real color\<close>).
\<close>

record 'n color =
  name :: string
  percentage :: 'n
  red :: 'n
  green :: 'n
  blue :: 'n

definition result_disposition :: string where
  \<open>result_disposition = ''Content-Disposition: form-data; name="result"''\<close>

text \<open>The object pushed for one entry of \<open>responseJson[0].colors\<close>.\<close>

definition color_entry :: "jsval \<Rightarrow> string \<Rightarrow> jsval color outcome" where
  "color_entry colors_object colorName =
     bind (get colors_object colorName) (\<lambda>color.
     bind (get color ''coverage'') (\<lambda>coverage.
     bind (get color ''rgb'') (\<lambda>rgb1.
     bind (get rgb1 ''red'') (\<lambda>r.
     bind (get color ''rgb'') (\<lambda>rgb2.
     bind (get rgb2 ''green'') (\<lambda>g.
     bind (get color ''rgb'') (\<lambda>rgb3.
     bind (get rgb3 ''blue'') (\<lambda>b.
       Returns \<lparr>name = colorName, percentage = coverage, red = r, green = g, blue = b\<rparr>))))))))"

text \<open>The inner loop, \<open>for (const name in responseJson[0].colors)\<close>.\<close>

fun push_colors :: "jsval \<Rightarrow> string list \<Rightarrow> jsval color list \<Rightarrow> jsval color list outcome" where
  "push_colors colors_object [] colors = Returns colors"
| "push_colors colors_object (colorName # names) colors =
     (case color_entry colors_object colorName of
        Returns c \<Rightarrow> push_colors colors_object names (colors @ [c])
      | Throws e \<Rightarrow> Throws e
      | Outside \<Rightarrow> Outside)"

text \<open>
  \<open>subParts[4]\<close> handed to \<open>JSON.parse\<close>: a missing element is \<open>undefined\<close>, which
  \<open>JSON.parse\<close> reads as the text \<open>undefined\<close>.
\<close>

definition subPart4 :: "string list \<Rightarrow> string" where
  "subPart4 subParts = (if 4 < length subParts then subParts ! 4 else ''undefined'')"

text \<open>
  The decoded document is read at \<open>responseJson[0].colors\<close>. The outer loop,
  \<open>for (const i in parts)\<close>: the first part in which the disposition of \<open>result\<close> occurs
  after position 0 is decoded, and the loop ends there.
\<close>

definition read_colors :: "jsval \<Rightarrow> jsval color list outcome" where
  "read_colors responseJson =
     bind (get responseJson ''0'') (\<lambda>first.
     bind (get first ''colors'') (\<lambda>colors_object.
       push_colors colors_object (for_in colors_object) []))"

fun scan_parts :: "string list \<Rightarrow> jsval color list outcome" where
  "scan_parts [] = Returns []"
| "scan_parts (part # parts) =
     (if 0 < indexOf part result_disposition then
        (let subParts = split part CRLF
         in bind (JSON_parse (subPart4 subParts)) (\<lambda>responseJson.
              read_colors responseJson))
      else scan_parts parts)"

definition parseColors :: "response \<Rightarrow> jsval color list outcome" where
  "parseColors response =
     (if status response = 200 then
        (let body = data response
         in bind (getBoundary (map_of (headers response) ''content-type'')) (\<lambda>boundary.
            case body of
              String text \<Rightarrow> scan_parts (split text (''--'' @ boundary))
            | _ \<Rightarrow> Throws TypeError))
      else Returns [])"

text \<open>
  \<open>Array.prototype.sort\<close> with a comparison function that orders the elements
  consistently: the stable sort, \<open>a\<close> before \<open>b\<close> when \<open>cmp(a, b) \<le> 0\<close>. The comparison
  of \<open>sortColors\<close> is a difference of two Numbers, whose sign is the same for doubles
  and for the reals they stand for.
\<close>

fun insert_by :: "('a \<Rightarrow> 'a \<Rightarrow> real) \<Rightarrow> 'a \<Rightarrow> 'a list \<Rightarrow> 'a list" where
  "insert_by cmp x [] = [x]"
| "insert_by cmp x (y # ys) = (if cmp x y \<le> 0 then x # y # ys else y # insert_by cmp x ys)"

definition Array_sort :: "('a \<Rightarrow> 'a \<Rightarrow> real) \<Rightarrow> 'a list \<Rightarrow> 'a list" where
  "Array_sort cmp xs = foldr (insert_by cmp) xs []"

definition sortColors :: "real color list \<Rightarrow> real color list" where
  "sortColors colors = Array_sort (\<lambda>a b. percentage b - percentage a) colors"

text \<open>
  \<open>Math.round\<close> rounds to the nearest integer, a half towards plus infinity. The product
  with 100 is taken in the reals.
\<close>

definition Math_round :: "real \<Rightarrow> int" where
  "Math_round x = \<lfloor>x + 1 / 2\<rfloor>"

definition toPercentageString :: "real color \<Rightarrow> string" where
  "toPercentageString c = integer_string (Math_round (percentage c * 100)) @ ''%''"

text \<open>
  \<open>Buffer.from(arr)\<close> stores each entry as an unsigned byte: the fraction is dropped
  (towards zero) and the integer is reduced modulo 256. \<open>toString('hex')\<close> writes each
  byte as two lower-case hexadecimal digits.
\<close>

definition ToUint8 :: "real \<Rightarrow> nat" where
  "ToUint8 r = nat ((if 0 \<le> r then \<lfloor>r\<rfloor> else \<lceil>r\<rceil>) mod 256)"

definition Buffer_from :: "real list \<Rightarrow> nat list" where
  "Buffer_from arr = map ToUint8 arr"

definition hex_digit :: "nat \<Rightarrow> char" where
  "hex_digit d = (if d < 10 then char_of (48 + d) else char_of (87 + d))"

definition hex_byte :: "nat \<Rightarrow> string" where
  "hex_byte b = [hex_digit (b div 16), hex_digit (b mod 16)]"

definition toString_hex :: "nat list \<Rightarrow> string" where
  "toString_hex buf = concat (map hex_byte buf)"

definition toWebColor :: "real color \<Rightarrow> string" where
  "toWebColor c =
     (let arr = [red c, green c, blue c]
      in ''#'' @ toString_hex (Buffer_from arr))"

text \<open>
  The tree handed to \<open>serializeXmp\<close>. The serializer is not part of the workers; the
  document written to the rendition is identified with the tree it is made from.
\<close>

record xmp_color =
  ccai_name :: string
  ccai_percentage :: real
  ccai_red :: real
  ccai_green :: real
  ccai_blue :: real

record color_tree =
  ccai_colorNames :: "string list"
  ccai_colorRGB :: "string list"
  ccai_colors :: "xmp_color list"

record xmp_label =
  ccai_label_name :: jsval
  ccai_label_percentage :: jsval

datatype document = ColorXmp color_tree | LabelXmp "xmp_label list"

record effects =
  calls :: "request list"
  written :: "(string \<times> document) list"

definition color_xmp :: "real color list \<Rightarrow> color_tree" where
  "color_xmp colors =
     \<lparr>ccai_colorNames = map (\<lambda>color. name color @ '', '' @ toPercentageString color) colors,
      ccai_colorRGB = map (\<lambda>color. toWebColor color @ '', '' @ toPercentageString color) colors,
      ccai_colors = map (\<lambda>color.
         \<lparr>ccai_name = name color, ccai_percentage = percentage color,
          ccai_red = red color, ccai_green = green color, ccai_blue = blue color\<rparr>) colors\<rparr>"

text \<open>
  From here on the four fields are computed with: a colour whose fields are all Numbers.
  What the worker does with a colour that has another kind of value in them (a string,
  \<open>null\<close>, a missing field) is not described.
\<close>

fun number_of :: "jsval \<Rightarrow> real option" where
  "number_of (Number x) = Some x"
| "number_of v = None"

definition as_numbers :: "jsval color \<Rightarrow> real color option" where
  "as_numbers c =
     (case (number_of (percentage c), number_of (red c), number_of (green c), number_of (blue c)) of
        (Some p, Some r, Some g, Some b) \<Rightarrow>
          Some \<lparr>name = name c, percentage = p, red = r, green = g, blue = b\<rparr>
      | _ \<Rightarrow> None)"

fun all_numbers :: "jsval color list \<Rightarrow> real color list option" where
  "all_numbers [] = Some []"
| "all_numbers (c # cs) =
     (case (as_numbers c, all_numbers cs) of
        (Some x, Some xs) \<Rightarrow> Some (x # xs)
      | _ \<Rightarrow> None)"

definition parameters :: "string \<Rightarrow> jsval" where
  "parameters analyzer_id =
     Object [
       (''sensei:name'', String analyzer_id),
       (''sensei:invocation_mode'', String ''synchronous''),
       (''sensei:invocation_batch'', Boolean False),
       (''sensei:engines'', Array [
          Object [
            (''sensei:execution_info'', Object [(''sensei:engine'', String analyzer_id)]),
            (''sensei:inputs'', Object [
               (''documents'', Array [
                  Object [(''sensei:multipart_field_name'', String ''infile''),
                          (''dc:format'', String ''image/jpg'')]])]),
            (''sensei:params'', Object [(''application-id'', String ''1234''),
                                        (''enable_mask'', Number 0)]),
            (''sensei:outputs'', Object [
               (''result'', Object [(''sensei:multipart_field_name'', String ''result''),
                                    (''dc:format'', String ''application/json'')])])]])]"

text \<open>
  The request of the worker: the form with the source file and the parameters, the
  credentials from the instructions (fixed ones in test mode), the headers of the worker
  and, after them, the header of the form with its boundary.
\<close>

definition colorextract_request :: "env \<Rightarrow> source \<Rightarrow> rendition \<Rightarrow> request" where
  "colorextract_request env source rendition =
     (let analyzer_id = or_default (instructions rendition ''ANALYZER_ID'') DEFAULT_ANALYZER_ID;
          endpoint = or_default (instructions rendition ''CCAI_ENDPOINT'') DEFAULT_CCAI_ENDPOINT;
          formData = [(''infile'', ReadStream (path source)),
                      (''contentAnalyzerRequests'', JSON_stringify (parameters analyzer_id))];
          accessToken = (if WORKER_TEST_MODE env then Some ''test-access-token''
                         else instructions rendition ''stageToken'');
          clientId = (if WORKER_TEST_MODE env then Some ''test-client-id''
                      else instructions rendition ''stageApiKey'')
      in \<lparr>http_method = ''post'', url = endpoint,
          request_headers = [
            (''Authorization'', Some (''Bearer '' @ template accessToken)),
            (''cache-control'', Some ''no-cache,no-cache''),
            (''Content-Type'', Some ''multipart/form-data''),
            (''x-api-key'', clientId),
            (''Prefer'', Some ''respond-async, wait=59''),
            (''content-type'', Some (''multipart/form-data; boundary='' @ form_boundary env))],
          request_data = FormData formData\<rparr>)"

text \<open>
  The worker. After the size check: when the instruction \<open>SENSEI_PARAMS\<close> is set, its
  text is parsed and the result assigned to \<open>parameters\<close>, which is a constant, so the
  assignment throws a TypeError (or \<open>JSON.parse\<close> a SyntaxError before it). Otherwise one
  request is posted; an error of axios is not caught. The colours parsed are sorted and
  the document made from them is written to the rendition. The logging and the unused
  \<open>format\<close> have no part in the outcome and are left out.
\<close>

definition main_colorextract :: "env \<Rightarrow> source \<Rightarrow> rendition \<Rightarrow> unit outcome \<times> effects" where
  "main_colorextract env source rendition =
     (let nothing = \<lparr>calls = [], written = []\<rparr>
      in case fs_stat env (path source) of
           Inl e \<Rightarrow> (Throws e, nothing)
         | Inr bytes \<Rightarrow>
             if bytes = 0 then (Throws (SourceCorruptError ''source file is empty''), nothing)
             else if or_default (instructions rendition ''SENSEI_PARAMS'') [] \<noteq> [] then
               (bind (JSON_parse (or_default (instructions rendition ''SENSEI_PARAMS'') []))
                     (\<lambda>parsed. Throws TypeError), nothing)
             else
               (let request = colorextract_request env source rendition;
                    called = \<lparr>calls = [request], written = []\<rparr>
                in case axios (service env) request of
                     Inl failure \<Rightarrow> (Throws (AxiosError failure), called)
                   | Inr response \<Rightarrow>
                       (case parseColors response of
                          Throws e \<Rightarrow> (Throws e, called)
                        | Outside \<Rightarrow> (Outside, called)
                        | Returns parsed \<Rightarrow>
                            (case all_numbers parsed of
                               None \<Rightarrow> (Outside, called)
                             | Some colors \<Rightarrow>
                                 (let sorted = sortColors colors;
                                      xmp = ColorXmp (color_xmp sorted)
                                  in (Returns (),
                                      called\<lparr>written := [(rendition_path rendition, xmp)]\<rparr>))))))"

section \<open>The custom classifier worker\<close>

definition DEFAULT_CLASSIFIER_IDS :: string where
  "DEFAULT_CLASSIFIER_IDS = ''10021,10023''"

definition DEFAULT_CCAI_ENDPOINT_classifiers :: string where
  "DEFAULT_CCAI_ENDPOINT_classifiers =
     ''https://ccai-tagging-stage-va7.adobe.io/custom/images/v0/classifiers/CLASSIFIER_ID/predict_tags''"

text \<open>
  The handler of \<open>callClassifier\<close>. \<open>failure\<close> is the \<open>response\<close> property of the error
  caught: the response for an error of axios that has one, \<open>undefined\<close> for an error
  without response and for an error thrown while reading the tags. Logging reads
  \<open>error.response.data.message\<close>, which throws itself when the data are \<open>null\<close> or
  \<open>undefined\<close>; otherwise a new \<open>Error\<close> is thrown, whose message has the status and the
  status text.
\<close>

definition failure_message :: "response option \<Rightarrow> string" where
  "failure_message failure =
     ''Failed getting custom tags: ''
     @ (case failure of None \<Rightarrow> ''undefined'' | Some r \<Rightarrow> decimal (status r))
     @ '' ''
     @ (case failure of None \<Rightarrow> ''undefined'' | Some r \<Rightarrow> statusText r)"

definition catch_handler :: "response option \<Rightarrow> jsval outcome" where
  "catch_handler failure =
     (case failure of
        None \<Rightarrow> Throws (Error (failure_message failure))
      | Some r \<Rightarrow>
          bind (get (data r) ''message'') (\<lambda>message. Throws (Error (failure_message failure))))"

text \<open>\<open>response.data.result[0].tags\<close>\<close>

definition read_tags :: "response \<Rightarrow> jsval outcome" where
  "read_tags response =
     bind (get (data response) ''result'') (\<lambda>result.
     bind (get result ''0'') (\<lambda>first.
       get first ''tags''))"

definition classifier_config ::
  "string \<Rightarrow> string \<Rightarrow> (string \<times> string option) list \<Rightarrow> jsval \<Rightarrow> request" where
  "classifier_config endpoint classifierId hdrs dat =
     (let classifierEndpoint = replace endpoint ''CLASSIFIER_ID'' classifierId
      in \<lparr>http_method = ''post'', url = classifierEndpoint,
          request_headers = hdrs, request_data = Json dat\<rparr>)"

definition callClassifier ::
  "env \<Rightarrow> string \<Rightarrow> string \<Rightarrow> (string \<times> string option) list \<Rightarrow> jsval \<Rightarrow> effects
     \<Rightarrow> jsval outcome \<times> effects" where
  "callClassifier env endpoint classifierId hdrs dat fx =
     (let config = classifier_config endpoint classifierId hdrs dat;
          called = fx\<lparr>calls := calls fx @ [config]\<rparr>
      in case axios (service env) config of
           Inr response \<Rightarrow>
             (case read_tags response of
                Returns tags \<Rightarrow> (Returns tags, called)
              | Throws e \<Rightarrow> (catch_handler None, called)
              | Outside \<Rightarrow> (Outside, called))
         | Inl failure \<Rightarrow> (catch_handler failure, called))"

text \<open>\<open>allTags.concat(tags)\<close>: an array argument is spread, any other value is appended.\<close>

fun concat_js :: "jsval list \<Rightarrow> jsval \<Rightarrow> jsval list" where
  "concat_js xs (Array ys) = xs @ ys"
| "concat_js xs v = xs @ [v]"

text \<open>The loop over the classifier ids; the first call that throws ends it.\<close>

fun call_classifiers ::
  "env \<Rightarrow> string \<Rightarrow> string list \<Rightarrow> (string \<times> string option) list \<Rightarrow> jsval \<Rightarrow> jsval list
     \<Rightarrow> effects \<Rightarrow> jsval list outcome \<times> effects" where
  "call_classifiers env endpoint [] hdrs dat allTags fx = (Returns allTags, fx)"
| "call_classifiers env endpoint (classifierId # ids) hdrs dat allTags fx =
     (case callClassifier env endpoint classifierId hdrs dat fx of
        (Returns tags, fx') \<Rightarrow> call_classifiers env endpoint ids hdrs dat (concat_js allTags tags) fx'
      | (Throws e, fx') \<Rightarrow> (Throws e, fx')
      | (Outside, fx') \<Rightarrow> (Outside, fx'))"

text \<open>\<open>allTags.map(t => ...)\<close>: reading \<open>t.tag\<close> throws when an entry is \<open>undefined\<close> or \<open>null\<close>.\<close>

definition label_of :: "jsval \<Rightarrow> xmp_label outcome" where
  "label_of t =
     bind (get t ''tag'') (\<lambda>tag.
     bind (get t ''confidence'') (\<lambda>confidence.
       Returns \<lparr>ccai_label_name = tag, ccai_label_percentage = confidence\<rparr>))"

fun labels_of :: "jsval list \<Rightarrow> xmp_label list outcome" where
  "labels_of [] = Returns []"
| "labels_of (t # ts) =
     (case label_of t of
        Returns l \<Rightarrow> (case labels_of ts of
                         Returns ls \<Rightarrow> Returns (l # ls)
                       | Throws e \<Rightarrow> Throws e
                       | Outside \<Rightarrow> Outside)
      | Throws e \<Rightarrow> Throws e
      | Outside \<Rightarrow> Outside)"

definition classifier_ids_of :: "rendition \<Rightarrow> string list" where
  "classifier_ids_of rendition =
     split (or_default (instructions rendition ''CLASSIFIER_IDS'') DEFAULT_CLASSIFIER_IDS) '',''"

definition endpoint_of :: "rendition \<Rightarrow> string" where
  "endpoint_of rendition =
     or_default (instructions rendition ''CCAI_ENDPOINT'') DEFAULT_CCAI_ENDPOINT_classifiers"

definition classifier_headers :: "env \<Rightarrow> rendition \<Rightarrow> (string \<times> string option) list" where
  "classifier_headers env rendition =
     (let accessToken = (if WORKER_TEST_MODE env then Some ''test-access-token''
                         else instructions rendition ''STAGE_TOKEN'');
          clientId = (if WORKER_TEST_MODE env then Some ''test-client-id''
                      else instructions rendition ''STAGE_API_KEY'');
          imsOrgId = (if WORKER_TEST_MODE env then Some ''test-ims-org-id''
                      else instructions rendition ''STAGE_IMS_ORG'')
      in [(''x-gw-ims-org-id'', imsOrgId),
          (''x-api-key'', clientId),
          (''Authorization'', Some (''Bearer '' @ template accessToken)),
          (''Content-Type'', Some ''application/json''),
          (''cache-control'', Some ''no-cache,no-cache'')])"

definition classifier_data :: "source \<Rightarrow> jsval" where
  "classifier_data source =
     Object [(''threshold'', Number 0),
             (''top_n'', Number 3),
             (''assets'', Array [Object [(''type'', String ''url''),
                                        (''asset'', String (source_url source))]])]"

text \<open>
  The worker: the size check, one call per classifier id in the order of the list, and
  the document with all the tags, written when every call has returned.
\<close>

definition main_classifiers :: "env \<Rightarrow> source \<Rightarrow> rendition \<Rightarrow> unit outcome \<times> effects" where
  "main_classifiers env source rendition =
     (let classifier_ids = classifier_ids_of rendition;
          endpoint = endpoint_of rendition;
          nothing = \<lparr>calls = [], written = []\<rparr>
      in case fs_stat env (path source) of
           Inl e \<Rightarrow> (Throws e, nothing)
         | Inr bytes \<Rightarrow>
             if bytes = 0 then (Throws (SourceCorruptError ''source file is empty''), nothing)
             else
               (let hdrs = classifier_headers env rendition;
                    dat = classifier_data source
                in case call_classifiers env endpoint classifier_ids hdrs dat [] nothing of
                     (Throws e, fx) \<Rightarrow> (Throws e, fx)
                   | (Outside, fx) \<Rightarrow> (Outside, fx)
                   | (Returns allTags, fx) \<Rightarrow>
                       (case labels_of allTags of
                          Throws e \<Rightarrow> (Throws e, fx)
                        | Outside \<Rightarrow> (Outside, fx)
                        | Returns labels \<Rightarrow>
                            (Returns (),
                             fx\<lparr>written := written fx @ [(rendition_path rendition, LabelXmp labels)]\<rparr>))))"

section \<open>Reading a web colour back\<close>

text \<open>
  For the statement of the format of a web colour: the value of a lower-case hexadecimal
  digit, and of a pair of them.
\<close>

definition hex_digit_value :: "char \<Rightarrow> nat option" where
  "hex_digit_value c =
     (let k = (of_char c :: nat) in
      if 48 \<le> k \<and> k \<le> 57 then Some (k - 48)
      else if 97 \<le> k \<and> k \<le> 102 then Some (k - 87)
      else None)"

fun hex_pair_value :: "string \<Rightarrow> nat option" where
  "hex_pair_value [h, l] =
     (case (hex_digit_value h, hex_digit_value l) of
        (Some a, Some b) \<Rightarrow> Some (16 * a + b)
      | _ \<Rightarrow> None)"
| "hex_pair_value _ = None"

section \<open>Example invocations\<close>

definition example_source :: source where
  "example_source = \<lparr>path = ''/tmp/source.jpg'', source_url = ''https://example.com/source.jpg''\<rparr>"

definition example_rendition :: rendition where
  "example_rendition = \<lparr>instructions = (\<lambda>k. None), rendition_path = ''/tmp/rendition.xmp''\<rparr>"

text \<open>A world in which the source has the given size and the service answers as given.\<close>

definition world :: "nat \<Rightarrow> (request \<Rightarrow> reply) \<Rightarrow> env" where
  "world bytes answers =
     \<lparr>fs_stat = (\<lambda>p. Inr bytes), service = answers, WORKER_TEST_MODE = True,
      form_boundary = ''form-boundary-0''\<rparr>"

text \<open>
  A multipart body with one part: the disposition line, further header lines, the blank
  line, the content, and the closing delimiter.
\<close>

definition one_part_body :: "string \<Rightarrow> string list \<Rightarrow> string \<Rightarrow> string" where
  "one_part_body disposition more_headers content =
     ''--Boundary_1'' @ CRLF
     @ disposition @ CRLF
     @ concat (map (\<lambda>h. h @ CRLF) more_headers)
     @ CRLF
     @ content @ CRLF
     @ ''--Boundary_1--'' @ CRLF"

definition multipart_response :: "nat \<Rightarrow> string \<Rightarrow> response" where
  "multipart_response code text =
     \<lparr>status = code, statusText = ''OK'',
      headers = [(''content-type'', ''multipart/form-data; boundary=Boundary_1'')],
      data = String text\<rparr>"

definition example_json :: string where
  \<open>example_json = ''[{"colors":{"red":{"coverage":0.6,"rgb":{"red":200,"green":10,"blue":10}}}}]''\<close>

definition example_feature :: "jsval color" where
  "example_feature =
     \<lparr>name = ''red'', percentage = Number 0.6, red = Number 200, green = Number 10, blue = Number 10\<rparr>"

text \<open>The result part as the service sends it, with a content type line.\<close>

definition example_response :: response where
  "example_response =
     multipart_response 200
       (one_part_body result_disposition [''Content-Type: application/json''] example_json)"

text \<open>The same result part with the disposition as its only header line.\<close>

definition bare_response :: response where
  "bare_response = multipart_response 200 (one_part_body result_disposition [] example_json)"


text \<open>A result whose red channel is 300.\<close>

definition red_300_response :: response where
  \<open>red_300_response =
     multipart_response 200
       (one_part_body result_disposition [''Content-Type: application/json'']
          ''[{"colors":{"red":{"coverage":0.6,"rgb":{"red":300,"green":10,"blue":10}}}}]'')\<close>

text \<open>A decoded colour record, and the colours object made of named records.\<close>

definition color_record :: "jsval \<Rightarrow> jsval \<Rightarrow> jsval \<Rightarrow> jsval \<Rightarrow> jsval" where
  "color_record coverage r g b =
     Object [(''coverage'', coverage), (''rgb'', Object [(''red'', r), (''green'', g), (''blue'', b)])]"

definition colors_object :: "(string \<times> jsval \<times> jsval \<times> jsval \<times> jsval) list \<Rightarrow> jsval" where
  "colors_object entries = Object (map (\<lambda>(n, coverage, r, g, b). (n, color_record coverage r g b)) entries)"

definition copied :: "string \<times> jsval \<times> jsval \<times> jsval \<times> jsval \<Rightarrow> jsval color" where
  "copied entry =
     (case entry of (n, coverage, r, g, b) \<Rightarrow>
        \<lparr>name = n, percentage = coverage, red = r, green = g, blue = b\<rparr>)"

text \<open>Answers of a classifier: one tag with its confidence, and a server error.\<close>

definition tag_response :: "string \<Rightarrow> real \<Rightarrow> response" where
  "tag_response tag confidence =
     \<lparr>status = 200, statusText = ''OK'', headers = [(''content-type'', ''application/json'')],
      data = Object [(''result'',
               Array [Object [(''tags'',
                 Array [Object [(''tag'', String tag), (''confidence'', Number confidence)]])]])]\<rparr>"

definition server_error :: response where
  "server_error =
     \<lparr>status = 500, statusText = ''Internal Server Error'',
      headers = [(''x-request-id'', ''r-1'')],
      data = Object [(''message'', String ''classifier unavailable'')]\<rparr>"


definition url_10021 :: string where
  "url_10021 = ''https://ccai-tagging-stage-va7.adobe.io/custom/images/v0/classifiers/10021/predict_tags''"

text \<open>Classifier 10021 finds a tag with confidence 0.2, every other classifier one with 0.9.\<close>

definition two_classifiers :: "request \<Rightarrow> reply" where
  "two_classifiers config =
     (if url config = url_10021 then Reply (tag_response ''abstract'' 0.2)
      else Reply (tag_response ''portrait'' 0.9))"

text \<open>Classifier 10021 answers, every other classifier fails with status 500.\<close>

definition second_fails :: "request \<Rightarrow> reply" where
  "second_fails config =
     (if url config = url_10021 then Reply (tag_response ''abstract'' 0.2)
      else Reply server_error)"

text \<open>The confidences of the labels that have a Number as percentage.\<close>

definition label_confidences :: "xmp_label list \<Rightarrow> real list" where
  "label_confidences labels = List.map_filter (\<lambda>l. number_of (ccai_label_percentage l)) labels"

section \<open>Web colours\<close>

declare decimal.simps [simp del]

lemma hex_digit_value_hex_digit: "d < 16 \<Longrightarrow> hex_digit_value (hex_digit d) = Some d"
  by (auto simp: hex_digit_value_def hex_digit_def Let_def)

lemma hex_pair_value_hex_byte: "b < 256 \<Longrightarrow> hex_pair_value (hex_byte b) = Some b"
  by (simp add: hex_byte_def hex_digit_value_hex_digit less_mult_imp_div_less)

lemma ToUint8_of_nat: "n \<le> 255 \<Longrightarrow> ToUint8 (real n) = n"
  by (simp add: ToUint8_def)

lemma toWebColor_bytes:
  "toWebColor c =
     CHR ''#'' # hex_byte (ToUint8 (red c)) @ hex_byte (ToUint8 (green c)) @ hex_byte (ToUint8 (blue c))"
  by (simp add: toWebColor_def toString_hex_def Buffer_from_def)

text \<open>
  Claim C9. For a colour whose channels are integers from 0 to 255, the web colour is
  \<open>#\<close> followed by exactly six lower-case hexadecimal digits, two per channel (so padded
  with a zero), in the order red, green, blue, with nothing between them: read back pair by
  pair the digits give the three channels. The colour with red 10, green 0 and blue 255
  becomes \<open>#0a00ff\<close>.
\<close>

theorem toWebColor_format:
  "(\<forall>r g b. r \<le> 255 \<and> g \<le> 255 \<and> b \<le> 255 \<longrightarrow>
      (let w = toWebColor \<lparr>name = n, percentage = p, red = real r, green = real g, blue = real b\<rparr>
       in length w = 7 \<and> hd w = CHR ''#''
          \<and> hex_pair_value (take 2 (drop 1 w)) = Some r
          \<and> hex_pair_value (take 2 (drop 3 w)) = Some g
          \<and> hex_pair_value (take 2 (drop 5 w)) = Some b))
   \<and> toWebColor \<lparr>name = n, percentage = p, red = 10, green = 0, blue = 255\<rparr> = ''#0a00ff''"
proof (intro conjI allI impI)
  fix r g b :: nat
  assume le: "r \<le> 255 \<and> g \<le> 255 \<and> b \<le> 255"
  have pairs: "hex_pair_value (hex_byte r) = Some r" "hex_pair_value (hex_byte g) = Some g"
    "hex_pair_value (hex_byte b) = Some b"
    using le by (simp_all add: hex_pair_value_hex_byte)
  have len: "length (hex_byte r) = 2" "length (hex_byte g) = 2" "length (hex_byte b) = 2"
    by (simp_all add: hex_byte_def)
  show "let w = toWebColor \<lparr>name = n, percentage = p, red = real r, green = real g, blue = real b\<rparr>
       in length w = 7 \<and> hd w = CHR ''#''
          \<and> hex_pair_value (take 2 (drop 1 w)) = Some r
          \<and> hex_pair_value (take 2 (drop 3 w)) = Some g
          \<and> hex_pair_value (take 2 (drop 5 w)) = Some b"
    using le pairs len by (simp add: toWebColor_bytes ToUint8_of_nat Let_def)
next
  have "ToUint8 10 = 10" "ToUint8 0 = 0" "ToUint8 255 = 255"
    by (simp_all add: ToUint8_def)
  moreover have "hex_byte 10 = ''0a''" "hex_byte 0 = ''00''" "hex_byte 255 = ''ff''"
    by code_simp+
  ultimately show "toWebColor \<lparr>name = n, percentage = p, red = 10, green = 0, blue = 255\<rparr> = ''#0a00ff''"
    by (simp add: toWebColor_bytes)
qed

theorem toWebColor_format_witness:
  "((10::nat) \<le> 255 \<and> (0::nat) \<le> 255 \<and> (255::nat) \<le> 255)
   \<and> (let w = toWebColor \<lparr>name = ''blue'', percentage = 1, red = real 10, green = real 0, blue = real 255\<rparr>
       in length w = 7 \<and> hd w = CHR ''#''
          \<and> hex_pair_value (take 2 (drop 1 w)) = Some 10
          \<and> hex_pair_value (take 2 (drop 3 w)) = Some 0
          \<and> hex_pair_value (take 2 (drop 5 w)) = Some 255)"
proof
  show h: "(10::nat) \<le> 255 \<and> (0::nat) \<le> 255 \<and> (255::nat) \<le> 255"
    by simp
  show "let w = toWebColor \<lparr>name = ''blue'', percentage = 1, red = real 10, green = real 0, blue = real 255\<rparr>
       in length w = 7 \<and> hd w = CHR ''#''
          \<and> hex_pair_value (take 2 (drop 1 w)) = Some 10
          \<and> hex_pair_value (take 2 (drop 3 w)) = Some 0
          \<and> hex_pair_value (take 2 (drop 5 w)) = Some 255"
    using toWebColor_format [of "''blue''" 1] h by blast
qed

section \<open>The colour worker: parsing, sorting, the document\<close>




text \<open>
  Claim C10. For a response whose status is not 200, \<open>parseColors\<close> returns the empty
  list and throws nothing. A status other than 200 reaches the parser when axios accepts
  it (201 to 299); the worker then writes the document of the empty list and returns.
\<close>

theorem parseColors_other_status:
  "(status response \<noteq> 200 \<longrightarrow> parseColors response = Returns [])
   \<and> (status response \<noteq> 200 \<and> 200 \<le> status response \<and> status response < 300
        \<and> service env (colorextract_request env source rendition) = Reply response
        \<and> fs_stat env (path source) = Inr bytes \<and> 0 < bytes
        \<and> or_default (instructions rendition ''SENSEI_PARAMS'') [] = [] \<longrightarrow>
      main_colorextract env source rendition
        = (Returns (),
           \<lparr>calls = [colorextract_request env source rendition],
            written = [(rendition_path rendition,
                        ColorXmp \<lparr>ccai_colorNames = [], ccai_colorRGB = [], ccai_colors = []\<rparr>)]\<rparr>))"
  by (auto simp: parseColors_def main_colorextract_def axios_def Let_def sortColors_def
        Array_sort_def color_xmp_def)

theorem parseColors_other_status_witness:
  "(status (multipart_response 204 []) \<noteq> 200
    \<and> 200 \<le> status (multipart_response 204 []) \<and> status (multipart_response 204 []) < 300
    \<and> service (world 1 (\<lambda>config. Reply (multipart_response 204 [])))
         (colorextract_request (world 1 (\<lambda>config. Reply (multipart_response 204 [])))
            example_source example_rendition) = Reply (multipart_response 204 [])
    \<and> fs_stat (world 1 (\<lambda>config. Reply (multipart_response 204 []))) (path example_source) = Inr 1
    \<and> (0::nat) < 1
    \<and> or_default (instructions example_rendition ''SENSEI_PARAMS'') [] = [])
   \<and> parseColors (multipart_response 204 []) = Returns []
   \<and> main_colorextract (world 1 (\<lambda>config. Reply (multipart_response 204 [])))
        example_source example_rendition
        = (Returns (),
           \<lparr>calls = [colorextract_request (world 1 (\<lambda>config. Reply (multipart_response 204 [])))
                        example_source example_rendition],
            written = [(rendition_path example_rendition,
                        ColorXmp \<lparr>ccai_colorNames = [], ccai_colorRGB = [], ccai_colors = []\<rparr>)]\<rparr>)"
proof -
  let ?r = "multipart_response 204 []"
  let ?env = "world 1 (\<lambda>config. Reply ?r)"
  have h: "status ?r \<noteq> 200 \<and> 200 \<le> status ?r \<and> status ?r < 300
      \<and> service ?env (colorextract_request ?env example_source example_rendition) = Reply ?r
      \<and> fs_stat ?env (path example_source) = Inr 1 \<and> (0::nat) < 1
      \<and> or_default (instructions example_rendition ''SENSEI_PARAMS'') [] = []"
    by (simp add: multipart_response_def world_def example_rendition_def or_default_def)
  show ?thesis
    using parseColors_other_status [of ?r ?env example_source example_rendition 1] h by blast
qed









text \<open>
  Claim C3 as stated fails: a record with \<open>rgb.red = 300\<close> is not rejected. The response
  is parsed, and the feature returned has red 300.
\<close>

theorem out_of_range_channel_counterexample:
  "parseColors red_300_response
     = Returns [\<lparr>name = ''red'', percentage = Number 0.6, red = Number 300, green = Number 10,
                 blue = Number 10\<rparr>]"
  by code_simp


lemma for_in_no_index:
  "\<forall>k \<in> set (map fst ps). array_index k = None \<Longrightarrow> for_in (Object ps) = map fst ps"
proof -
  assume a: "\<forall>k \<in> set (map fst ps). array_index k = None"
  have "filter (\<lambda>k. array_index k \<noteq> None) (map fst ps) = []"
    using a by (simp add: filter_empty_conv)
  moreover have "filter (\<lambda>k. array_index k = None) (map fst ps) = map fst ps"
    using a by (simp add: filter_id_conv)
  ultimately show ?thesis by simp
qed

lemma push_colors_all:
  "\<forall>n \<in> set names. color_entry obj n = Returns (f n) \<Longrightarrow>
   push_colors obj names acc = Returns (acc @ map f names)"
  by (induction names arbitrary: acc) simp_all

lemma get_color_record:
  "get (color_record coverage r g b) ''coverage'' = Returns coverage"
  "get (color_record coverage r g b) ''rgb'' = Returns (Object [(''red'', r), (''green'', g), (''blue'', b)])"
  by (simp_all add: color_record_def)

lemma color_entry_copied:
  "map_of entries n = Some v \<Longrightarrow> color_entry (colors_object entries) n = Returns (copied (n, v))"
proof -
  assume m: "map_of entries n = Some v"
  obtain coverage r g b where v: "v = (coverage, r, g, b)"
    by (cases v) auto
  have "map_of (map (\<lambda>(n, coverage, r, g, b). (n, color_record coverage r g b)) entries) n
          = Some (color_record coverage r g b)"
    using m v by (induction entries) (auto split: if_splits)
  then show ?thesis
    by (simp add: color_entry_def colors_object_def bind_def get_color_record copied_def v)
qed

text \<open>
  Claim C3, as the code has it. \<open>parseColors\<close> has no check of ranges and no error for
  them: for a decoded document whose colours are records with a coverage and the three
  channels (under distinct names, none of them an array index), every feature has the
  coverage and the channels of its record unchanged, whatever these values are, and
  nothing is thrown.
\<close>

theorem colors_copied_unchecked:
  assumes "distinct (map fst entries)"
    and "\<forall>n \<in> set (map fst entries). array_index n = None"
  shows "read_colors (Array [Object [(''colors'', colors_object entries)]]) = Returns (map copied entries)"
proof -
  let ?f = "\<lambda>n. copied (n, the (map_of entries n))"
  have keys: "map fst (map (\<lambda>(n, coverage, r, g, b). (n, color_record coverage r g b)) entries)
                = map fst entries"
    by (induction entries) auto
  have order: "for_in (colors_object entries) = map fst entries"
    unfolding colors_object_def using for_in_no_index [of "map (\<lambda>(n, coverage, r, g, b). (n, color_record coverage r g b)) entries"] assms(2) keys
    by simp
  have each: "\<forall>n \<in> set (map fst entries). color_entry (colors_object entries) n = Returns (?f n)"
  proof
    fix n assume "n \<in> set (map fst entries)"
    then obtain v where "map_of entries n = Some v"
      by (metis map_of_eq_None_iff not_Some_eq set_map)
    then show "color_entry (colors_object entries) n = Returns (?f n)"
      by (simp add: color_entry_copied)
  qed
  have same: "map ?f (map fst entries) = map copied entries"
    using assms(1) by (induction entries) (auto simp: rev_image_eqI)
  have zero: "array_index ''0'' = Some 0"
    by code_simp
  have "read_colors (Array [Object [(''colors'', colors_object entries)]])
          = push_colors (colors_object entries) (for_in (colors_object entries)) []"
    by (simp add: read_colors_def bind_def zero)
  also have "\<dots> = Returns (map ?f (map fst entries))"
    using push_colors_all [OF each, of "[]"] order by simp
  finally show ?thesis
    using same by simp
qed

theorem colors_copied_unchecked_witness:
  "read_colors (Array [Object [(''colors'',
       colors_object [(''red'', Number 0.6, Number 300, Number 10, Number 10),
                      (''sky'', Number 1.5, Number (- 4), Number 0, Number 255)])]])
     = Returns (map copied [(''red'', Number 0.6, Number 300, Number 10, Number 10),
                            (''sky'', Number 1.5, Number (- 4), Number 0, Number 255)])"
proof -
  let ?entries = "[(''red'', Number 0.6, Number 300, Number 10, Number 10),
                   (''sky'', Number 1.5, Number (- 4), Number 0, Number 255)]"
  have h1: "distinct (map fst ?entries)"
    by simp
  have h2: "\<forall>n \<in> set (map fst ?entries). array_index n = None"
    by code_simp
  show ?thesis
    using colors_copied_unchecked [OF h1 h2] .
qed

text \<open>
  Claim C5 as stated fails: the part named \<open>result\<close> is read at a fixed place, the fifth
  of the pieces that CRLF separates. In a response whose result part has the disposition
  as its only header line, that piece is empty, and \<open>JSON.parse\<close> throws.
\<close>

theorem result_part_with_one_header_counterexample:
  "split (one_part_body result_disposition [] example_json) ''--Boundary_1''
     = [[], CRLF @ result_disposition @ CRLF @ CRLF @ example_json @ CRLF, ''--'' @ CRLF]
   \<and> parseColors bare_response = Throws SyntaxError"
  by code_simp


lemma scan_parts_skips:
  "\<forall>p \<in> set before. indexOf p result_disposition \<le> 0 \<Longrightarrow>
   scan_parts (before @ rest) = scan_parts rest"
  by (induction before) auto

lemma example_json_decoded:
  "bind (JSON_parse example_json) read_colors = Returns [example_feature]"
  by code_simp

text \<open>
  Claim C5, as the code has it. When the first part in which the disposition of \<open>result\<close>
  occurs (after position 0) has the JSON text of the example as the fifth of its
  CRLF-separated pieces (after the delimiter: the disposition, one more header line
  and the blank line), the response is decoded to exactly the one feature of the example:
  name \<open>red\<close>, percentage 0.6, red 200, green 10, blue 10.
\<close>

theorem result_part_decoded:
  assumes "status response = 200"
    and "getBoundary (map_of (headers response) ''content-type'') = Returns boundary"
    and "data response = String text"
    and "split text (''--'' @ boundary) = before @ part # after"
    and "\<forall>p \<in> set before. indexOf p result_disposition \<le> 0"
    and "0 < indexOf part result_disposition"
    and "4 < length (split part CRLF)"
    and "split part CRLF ! 4 = example_json"
  shows "parseColors response = Returns [example_feature]"
proof -
  have "scan_parts (before @ part # after) = scan_parts (part # after)"
    using assms(5) by (rule scan_parts_skips)
  also have "\<dots> = bind (JSON_parse example_json) read_colors"
    using assms(6,7,8) by (simp add: subPart4_def)
  finally have "scan_parts (split text (''--'' @ boundary)) = Returns [example_feature]"
    using assms(4) example_json_decoded by simp
  then show ?thesis
    using assms(1,2,3) by (simp add: parseColors_def bind_def)
qed

theorem result_part_decoded_witness:
  "status example_response = 200
   \<and> getBoundary (map_of (headers example_response) ''content-type'') = Returns ''Boundary_1''
   \<and> split (one_part_body result_disposition [''Content-Type: application/json''] example_json)
         (''--'' @ ''Boundary_1'')
       = [[]] @ (CRLF @ result_disposition @ CRLF @ ''Content-Type: application/json'' @ CRLF
                 @ CRLF @ example_json @ CRLF) # [''--'' @ CRLF]
   \<and> parseColors example_response = Returns [example_feature]"
proof -
  let ?text = "one_part_body result_disposition [''Content-Type: application/json''] example_json"
  let ?part = "CRLF @ result_disposition @ CRLF @ ''Content-Type: application/json'' @ CRLF
                 @ CRLF @ example_json @ CRLF"
  have h1: "status example_response = 200"
    by code_simp
  have h2: "getBoundary (map_of (headers example_response) ''content-type'') = Returns ''Boundary_1''"
    by code_simp
  have h3: "data example_response = String ?text"
    by (simp add: example_response_def multipart_response_def)
  have h4: "split ?text (''--'' @ ''Boundary_1'') = [[]] @ ?part # [''--'' @ CRLF]"
    by code_simp
  have h5: "\<forall>p \<in> set [[]]. indexOf p result_disposition \<le> 0"
    by code_simp
  have h6: "0 < indexOf ?part result_disposition"
    by code_simp
  have h7: "4 < length (split ?part CRLF)"
    by code_simp
  have h8: "split ?part CRLF ! 4 = example_json"
    by code_simp
  show ?thesis
    using result_part_decoded [OF h1 h2 h3 h4 h5 h6 h7 h8] h1 h2 h4 by blast
qed

section \<open>The empty source\<close>

text \<open>
  Claim C7. When the source file has length zero, each of the two workers throws
  \<open>SourceCorruptError\<close>, and has issued no HTTP call (and written nothing) when it does.
\<close>

theorem empty_source_is_corrupt:
  "fs_stat env (path source) = Inr 0 \<Longrightarrow>
     main_colorextract env source rendition
       = (Throws (SourceCorruptError ''source file is empty''), \<lparr>calls = [], written = []\<rparr>)
     \<and> main_classifiers env source rendition
       = (Throws (SourceCorruptError ''source file is empty''), \<lparr>calls = [], written = []\<rparr>)"
  by (simp add: main_colorextract_def main_classifiers_def)

theorem empty_source_is_corrupt_witness:
  "fs_stat (world 0 two_classifiers) (path example_source) = Inr 0
   \<and> main_colorextract (world 0 two_classifiers) example_source example_rendition
       = (Throws (SourceCorruptError ''source file is empty''), \<lparr>calls = [], written = []\<rparr>)
   \<and> main_classifiers (world 0 two_classifiers) example_source example_rendition
       = (Throws (SourceCorruptError ''source file is empty''), \<lparr>calls = [], written = []\<rparr>)"
proof -
  have h: "fs_stat (world 0 two_classifiers) (path example_source) = Inr 0"
    by (simp add: world_def)
  show ?thesis
    using empty_source_is_corrupt [OF h] h by blast
qed

section \<open>The classifier worker\<close>

lemma get_not_Outside: "get v k \<noteq> Outside"
  by (cases v) auto

lemma catch_handler_throws: "\<exists>e. catch_handler failure = Throws e"
  by (cases failure) (auto simp: catch_handler_def bind_def split: outcome.splits simp: get_not_Outside)

lemma callClassifier_written:
  "written (snd (callClassifier env endpoint cid hdrs dat fx)) = written fx"
  by (simp add: callClassifier_def Let_def split: sum.splits outcome.splits)

lemma callClassifier_rejected:
  "axios (service env) (classifier_config endpoint cid hdrs dat) = Inl failure \<Longrightarrow>
   \<exists>e. fst (callClassifier env endpoint cid hdrs dat fx) = Throws e"
  using catch_handler_throws [of failure] by (auto simp: callClassifier_def Let_def)

lemma call_classifiers_written:
  "written (snd (call_classifiers env endpoint ids hdrs dat allTags fx)) = written fx"
proof (induction ids arbitrary: allTags fx)
  case Nil
  show ?case by simp
next
  case (Cons cid ids)
  obtain out fx' where c: "callClassifier env endpoint cid hdrs dat fx = (out, fx')"
    by (cases "callClassifier env endpoint cid hdrs dat fx")
  have w: "written fx' = written fx"
    using callClassifier_written [of env endpoint cid hdrs dat fx] c by simp
  show ?case
    using c w Cons.IH by (cases out) simp_all
qed

lemma call_classifiers_rejected:
  "cid \<in> set ids \<Longrightarrow>
   axios (service env) (classifier_config endpoint cid hdrs dat) = Inl failure \<Longrightarrow>
   \<exists>e. fst (call_classifiers env endpoint ids hdrs dat allTags fx) = Throws e
       \<or> fst (call_classifiers env endpoint ids hdrs dat allTags fx) = Outside"
proof (induction ids arbitrary: allTags fx)
  case Nil
  then show ?case by simp
next
  case (Cons c ids)
  obtain out fx' where r: "callClassifier env endpoint c hdrs dat fx = (out, fx')"
    by (cases "callClassifier env endpoint c hdrs dat fx")
  show ?case
  proof (cases out)
    case (Returns tags)
    have "c \<noteq> cid"
      using callClassifier_rejected [of env endpoint cid hdrs dat failure fx] Cons.prems(2) r Returns
      by auto
    then have "cid \<in> set ids"
      using Cons.prems(1) by simp
    then show ?thesis
      using Cons.IH [of "concat_js allTags tags" fx'] Cons.prems(2) r Returns by simp
  next
    case (Throws e)
    then show ?thesis using r by simp
  next
    case Outside
    then show ?thesis using r by simp
  qed
qed


lemma read_tags_not_Outside: "read_tags response \<noteq> Outside"
  by (auto simp: read_tags_def bind_def get_not_Outside split: outcome.splits)

lemma catch_handler_not_Outside: "catch_handler failure \<noteq> Outside"
  using catch_handler_throws [of failure] by auto

lemma callClassifier_not_Outside: "fst (callClassifier env endpoint cid hdrs dat fx) \<noteq> Outside"
  by (auto simp: callClassifier_def Let_def read_tags_not_Outside catch_handler_not_Outside
           split: sum.splits outcome.splits)

lemma call_classifiers_not_Outside:
  "fst (call_classifiers env endpoint ids hdrs dat allTags fx) \<noteq> Outside"
proof (induction ids arbitrary: allTags fx)
  case Nil
  show ?case by simp
next
  case (Cons c ids)
  obtain out fx' where r: "callClassifier env endpoint c hdrs dat fx = (out, fx')"
    by (cases "callClassifier env endpoint c hdrs dat fx")
  have "out \<noteq> Outside"
    using callClassifier_not_Outside [of env endpoint c hdrs dat fx] r by simp
  then show ?case
    using r Cons.IH by (cases out) simp_all
qed

lemma axios_bad_status:
  "service env config = Reply r \<Longrightarrow> \<not> (200 \<le> status r \<and> status r < 300) \<Longrightarrow>
   axios (service env) config = Inl (Some r)"
  by (simp add: axios_def)

text \<open>
  Claim C1. The classifier worker calls the classifiers one after the other and does not
  catch what \<open>callClassifier\<close> throws. When one of the classifier ids gets a reply
  whose status is not a success (not from 200 to 299), the invocation ends with an error
  and no document is written: the tags of the classifiers that had answered are dropped.
\<close>

theorem any_failed_classifier_aborts:
  assumes "cid \<in> set (classifier_ids_of rendition)"
    and "service env (classifier_config (endpoint_of rendition) cid
           (classifier_headers env rendition) (classifier_data source)) = Reply r"
    and "\<not> (200 \<le> status r \<and> status r < 300)"
  shows "(\<exists>e. fst (main_classifiers env source rendition) = Throws e)
         \<and> written (snd (main_classifiers env source rendition)) = []"
proof -
  let ?loop = "call_classifiers env (endpoint_of rendition) (classifier_ids_of rendition)
                 (classifier_headers env rendition) (classifier_data source) []
                 \<lparr>calls = [], written = []\<rparr>"
  have rejected: "axios (service env) (classifier_config (endpoint_of rendition) cid
           (classifier_headers env rendition) (classifier_data source)) = Inl (Some r)"
    using assms(2,3) by (rule axios_bad_status)
  obtain e where thrown: "fst ?loop = Throws e"
    using call_classifiers_rejected [OF assms(1) rejected] call_classifiers_not_Outside
    by blast
  have unwritten: "written (snd ?loop) = []"
    by (simp add: call_classifiers_written)
  obtain fx where loop: "?loop = (Throws e, fx)"
    using thrown by (cases ?loop) simp
  have "written fx = []"
    using unwritten loop by simp
  then show ?thesis
    using loop by (auto simp: main_classifiers_def Let_def split: sum.splits)
qed

theorem any_failed_classifier_aborts_witness:
  "''10023'' \<in> set (classifier_ids_of example_rendition)
   \<and> service (world 1 second_fails)
        (classifier_config (endpoint_of example_rendition) ''10023''
           (classifier_headers (world 1 second_fails) example_rendition)
           (classifier_data example_source)) = Reply server_error
   \<and> \<not> (200 \<le> status server_error \<and> status server_error < 300)
   \<and> (\<exists>e. fst (main_classifiers (world 1 second_fails) example_source example_rendition) = Throws e)
   \<and> written (snd (main_classifiers (world 1 second_fails) example_source example_rendition)) = []"
proof -
  have h1: "''10023'' \<in> set (classifier_ids_of example_rendition)"
    by code_simp
  have h2: "service (world 1 second_fails)
        (classifier_config (endpoint_of example_rendition) ''10023''
           (classifier_headers (world 1 second_fails) example_rendition)
           (classifier_data example_source)) = Reply server_error"
    by code_simp
  have h3: "\<not> (200 \<le> status server_error \<and> status server_error < 300)"
    by (simp add: server_error_def)
  show ?thesis
    using any_failed_classifier_aborts [OF h1 h2 h3] h1 h2 h3 by blast
qed







lemma call_classifiers_concatenates:
  "\<forall>cid \<in> set ids. \<exists>r. service env (classifier_config endpoint cid hdrs dat) = Reply r
       \<and> 200 \<le> status r \<and> status r < 300 \<and> read_tags r = Returns (Array (tags cid)) \<Longrightarrow>
   fst (call_classifiers env endpoint ids hdrs dat allTags fx)
     = Returns (allTags @ concat (map tags ids))"
proof (induction ids arbitrary: allTags fx)
  case Nil
  show ?case by simp
next
  case (Cons c ids)
  obtain r where r: "service env (classifier_config endpoint c hdrs dat) = Reply r"
      "200 \<le> status r" "status r < 300" "read_tags r = Returns (Array (tags c))"
    using Cons.prems by auto
  have "callClassifier env endpoint c hdrs dat fx
          = (Returns (Array (tags c)), fx\<lparr>calls := calls fx @ [classifier_config endpoint c hdrs dat]\<rparr>)"
    using r by (simp add: callClassifier_def Let_def axios_def)
  then show ?case
    using Cons.IH [of "allTags @ tags c"] Cons.prems by simp
qed

text \<open>
  Claim C2, at an input where it fails. With the two default classifiers, the first
  finding a tag with confidence 0.2 and the second one with confidence 0.9, the worker
  returns and writes the labels in the order of the calls, 0.2 before 0.9: both tags are
  there, and the list is not in descending order of confidence.
\<close>

theorem labels_in_call_order:
  "fst (main_classifiers (world 1 two_classifiers) example_source example_rendition) = Returns ()
   \<and> written (snd (main_classifiers (world 1 two_classifiers) example_source example_rendition))
       = [(''/tmp/rendition.xmp'',
           LabelXmp [\<lparr>ccai_label_name = String ''abstract'', ccai_label_percentage = Number 0.2\<rparr>,
                     \<lparr>ccai_label_name = String ''portrait'', ccai_label_percentage = Number 0.9\<rparr>])]
   \<and> label_confidences
         [\<lparr>ccai_label_name = String ''abstract'', ccai_label_percentage = Number 0.2\<rparr>,
          \<lparr>ccai_label_name = String ''portrait'', ccai_label_percentage = Number 0.9\<rparr>] = [0.2, 0.9]
   \<and> \<not> sorted_wrt (\<lambda>a b. b \<le> a) [0.2, 0.9 :: real]"
  by code_simp


end
